theory Spec2Isabelle
  imports Complex_Main "HOL-Library.Multiset"
begin

section \<open>Entity model\<close>

text \<open>
  A \<open>float64\<close> is a finite number, one of the two infinities, or NaN. The catalog
  never computes with a price: it stores it, compares it with \<^verbatim>\<open>>\<close> and prints it.
  So a finite \<open>float64\<close> is the real number it denotes (rounding happens before a
  price reaches the catalog, and the two zeros, which compare equal, are one value).
\<close>

datatype float64 = Finite real | PosInf | NegInf | NaN

text \<open>
  The comparison \<^verbatim>\<open>x > y\<close> of Go on \<open>float64\<close>: false as soon as one side is
  NaN, the order of the extended reals otherwise.
\<close>

fun float_gt :: "float64 \<Rightarrow> float64 \<Rightarrow> bool" where
  "float_gt NaN _ = False"
| "float_gt _ NaN = False"
| "float_gt (Finite a) (Finite b) = (a > b)"
| "float_gt PosInf PosInf = False"
| "float_gt PosInf _ = True"
| "float_gt _ PosInf = False"
| "float_gt NegInf _ = False"
| "float_gt _ NegInf = True"

text \<open>
  The comparison \<^verbatim>\<open>x >= y\<close> of Go on \<open>float64\<close>, in which "the prices never
  increase" is stated: false as soon as one side is NaN.
\<close>

fun float_ge :: "float64 \<Rightarrow> float64 \<Rightarrow> bool" where
  "float_ge NaN _ = False"
| "float_ge _ NaN = False"
| "float_ge (Finite a) (Finite b) = (a \<ge> b)"
| "float_ge PosInf _ = True"
| "float_ge _ PosInf = False"
| "float_ge _ NegInf = True"
| "float_ge NegInf _ = False"

text \<open>
  Both storage packages declare the same struct
  \<^verbatim>\<open>type Product struct { Id int; Name string; Price float64 }\<close>
  (they differ in JSON tags only). \<open>Id\<close> is a Go \<open>int\<close>; the catalog only
  compares ids for equality and prints them, so it is an unbounded integer here. The
  field \<open>Id\<close> is written \<open>Id_p\<close> (HOL has a constant \<open>Id\<close>).
\<close>

record Product =
  Id_p :: int
  Name :: string
  Price :: float64

text \<open>An error value of Go (\<^verbatim>\<open>fmt.Errorf\<close>): it carries its message.\<close>

datatype error = Errorf string

fun Error :: "error \<Rightarrow> string" where
  "Error (Errorf s) = s"

text \<open>The verb \<^verbatim>\<open>%v\<close> on an \<open>int\<close>: decimal digits, with a minus sign below zero.\<close>

fun digits :: "nat \<Rightarrow> string" where
  "digits n =
     (if n < 10 then [''0123456789'' ! n]
      else digits (n div 10) @ [''0123456789'' ! (n mod 10)])"

declare digits.simps [simp del]

definition itoa :: "int \<Rightarrow> string" where
  "itoa i = (if i < 0 then CHR ''-'' # digits (nat (- i)) else digits (nat i))"

text \<open>
  \<^verbatim>\<open>func (p Product) String() string {
    return fmt.Sprintf("<(Id: %v) {%v} @ %v>", p.Id, p.Name, p.Price) }\<close>
  The rendering of a \<open>float64\<close> by \<^verbatim>\<open>%v\<close> is library code (the shortest decimal
  that reads back as the same float); it is the parameter \<open>fmtFloat\<close>.
\<close>

definition Product_String :: "(float64 \<Rightarrow> string) \<Rightarrow> Product \<Rightarrow> string" where
  "Product_String fmtFloat p =
     ''<(Id: '' @ itoa (Id_p p) @ '') {'' @ Name p @ ''} @ '' @ fmtFloat (Price p) @ ''>''"

section \<open>The library's sort\<close>

text \<open>
  \<^verbatim>\<open>sort.Slice(xs, less)\<close> reorders \<open>xs\<close> in place. When \<open>less\<close> is a strict
  weak order on the elements, no element is \<open>less\<close> than an element before it
  afterwards; the order among elements that are not \<open>less\<close> either way is not
  promised. It is library code. The library sorts a slice of at most twelve elements by
  insertion sort,
  \<^verbatim>\<open>for i := a + 1; i < b; i++ {
    for j := i; j > a && less(j, j-1); j-- { swap(j, j-1) } }\<close>
  and that is the algorithm modelled here. On a longer slice the library runs another
  algorithm, which can leave elements that are not \<open>less\<close> either way in another
  order than this one; what is proved below of a catalog of any length (the result is
  a permutation, and its prices never increase when \<open>less\<close> is a strict weak order)
  does not depend on that order, and every run on a concrete catalog below has at most
  five elements.

  \<open>sink lt x ys\<close> is the inner loop, with \<open>lt\<close> for \<open>less\<close>: \<open>ys\<close> is the
  part of the slice before \<open>x\<close>, read from right to left, and \<open>x\<close> moves left past
  every element it is \<open>less\<close> than, up to the first one it is not.
\<close>

primrec sink :: "('a \<Rightarrow> 'a \<Rightarrow> bool) \<Rightarrow> 'a \<Rightarrow> 'a list \<Rightarrow> 'a list" where
  "sink lt x [] = [x]"
| "sink lt x (y # ys) = (if lt x y then y # sink lt x ys else x # y # ys)"

definition sort_Slice :: "('a \<Rightarrow> 'a \<Rightarrow> bool) \<Rightarrow> 'a list \<Rightarrow> 'a list" where
  "sort_Slice lt xs = rev (foldl (\<lambda>ys x. sink lt x ys) [] xs)"

section \<open>The ephemeral backend (package dummydb)\<close>

text \<open>
  \<^verbatim>\<open>type Products []Product;  var Items Products\<close>
  The catalog is the package variable \<open>Items\<close>, a slice. No other slice over its
  array outlives a call, so the state is the sequence of its elements; every operation
  takes the sequence and returns the sequence it leaves in \<open>Items\<close> next to its result.
\<close>

type_synonym Products = "Product list"

definition price_desc :: "Product \<Rightarrow> Product \<Rightarrow> bool" where
  "price_desc a b = float_gt (Price a) (Price b)"

text \<open>
  \<^verbatim>\<open>func (pArr Products) GetAll() (Products, error) {
    sort.Slice(pArr, func(i, j int) bool { return pArr[i].Price > pArr[j].Price })
    return pArr, nil }\<close>
  The receiver is a copy of the slice header of \<open>Items\<close>: it points at the same
  array, and \<open>sort.Slice\<close> swaps the elements of that array. So the sorted order is
  what \<open>Items\<close> holds afterwards, and it is what is returned.
\<close>

definition dummydb_GetAll :: "Products \<Rightarrow> Products \<times> (error + Products)" where
  "dummydb_GetAll pArr = (let s = sort_Slice price_desc pArr in (s, Inr s))"

text \<open>
  \<^verbatim>\<open>func (pArr *Products) AddProduct(newProduct Product) error {
    *pArr = append(*pArr, newProduct); return nil }\<close>
\<close>

definition dummydb_AddProduct :: "Products \<Rightarrow> Product \<Rightarrow> Products \<times> error option" where
  "dummydb_AddProduct pArr newProduct = (pArr @ [newProduct], None)"

text \<open>The message of every miss: \<^verbatim>\<open>fmt.Errorf("Product <%v> does not exist", id)\<close>.\<close>

definition does_not_exist :: "int \<Rightarrow> error" where
  "does_not_exist i = Errorf (''Product <'' @ itoa i @ ''> does not exist'')"

text \<open>
  \<^verbatim>\<open>func (pArr Products) GetProduct(product *Product) error {
    for _, p := range pArr {
      if product.Id == p.Id { *product = p; return nil } }
    return fmt.Errorf("Product <%v> does not exist", product.Id) }\<close>
  The result is the error, or the value written to \<open>*product\<close>; on the error
  \<open>*product\<close> is not written. \<open>Items\<close> is only read.
\<close>

fun dummydb_GetProduct :: "Products \<Rightarrow> Product \<Rightarrow> error + Product" where
  "dummydb_GetProduct [] product = Inl (does_not_exist (Id_p product))"
| "dummydb_GetProduct (p # pArr) product =
     (if Id_p product = Id_p p then Inr p else dummydb_GetProduct pArr product)"

text \<open>
  The scan of \<open>UpdateProduct\<close> and \<open>DeleteProduct\<close>,
  \<^verbatim>\<open>for i, op := range *pArr { if op.Id == id { ...; return nil } }\<close>:
  the index at which the body runs, if it runs.
\<close>

fun scan_Id :: "int \<Rightarrow> Products \<Rightarrow> nat option" where
  "scan_Id k [] = None"
| "scan_Id k (p # pArr) = (if Id_p p = k then Some 0 else map_option Suc (scan_Id k pArr))"

text \<open>
  \<^verbatim>\<open>func (pArr *Products) UpdateProduct(newProduct Product) error {
    for i, op := range *pArr {
      if op.Id == newProduct.Id { (*pArr)[i] = newProduct; return nil } }
    return fmt.Errorf("Product <%v> does not exist", newProduct.Id) }\<close>
\<close>

definition dummydb_UpdateProduct :: "Products \<Rightarrow> Product \<Rightarrow> Products \<times> error option" where
  "dummydb_UpdateProduct pArr newProduct =
     (case scan_Id (Id_p newProduct) pArr of
        Some i \<Rightarrow> (pArr[i := newProduct], None)
      | None \<Rightarrow> (pArr, Some (does_not_exist (Id_p newProduct))))"

text \<open>
  \<^verbatim>\<open>func (pArr *Products) DeleteProduct(p Product) error {
    for i, op := range *pArr {
      if op.Id == p.Id { *pArr = append((*pArr)[:i], (*pArr)[i+1:]...); return nil } }
    return fmt.Errorf("Product <%v> does not exist", p.Id) }\<close>
\<close>

definition dummydb_DeleteProduct :: "Products \<Rightarrow> Product \<Rightarrow> Products \<times> error option" where
  "dummydb_DeleteProduct pArr p =
     (case scan_Id (Id_p p) pArr of
        Some i \<Rightarrow> (take i pArr @ drop (i + 1) pArr, None)
      | None \<Rightarrow> (pArr, Some (does_not_exist (Id_p p))))"

text \<open>
  \<^verbatim>\<open>func Initialize() error {
    Items = Products{ {1, "Apple", 0.98}, {2, "Orange", 0.98},
                      {3, "Bananas", 2.25}, {4, "Frozen Pizza", 4.99} }
    return nil }\<close>
\<close>

definition dummydb_Initialize :: "Products \<times> error option" where
  "dummydb_Initialize =
     ([\<lparr>Id_p = 1, Name = ''Apple'', Price = Finite 0.98\<rparr>,
       \<lparr>Id_p = 2, Name = ''Orange'', Price = Finite 0.98\<rparr>,
       \<lparr>Id_p = 3, Name = ''Bananas'', Price = Finite 2.25\<rparr>,
       \<lparr>Id_p = 4, Name = ''Frozen Pizza'', Price = Finite 4.99\<rparr>], None)"

section \<open>The persistent backend (package dynamodb)\<close>

text \<open>
  The store is reached through the AWS SDK, which is not part of the repository. What
  each call of the SDK answers is an input of the model: one field per call the package
  makes. A call answers with an error or with its output; \<open>Query\<close> is the pair
  \<open>(result.Items, err)\<close> as the SDK returns it (the output is allocated before the
  request is sent, so on an error it is there and holds no items). An item is a value of
  the type \<open>'item\<close>, the attribute map of the store.
\<close>

record 'item SDK =
  NewSession :: "error option"
  ListTables :: "error + string list"
  CreateTable :: "error option"
  Scan :: "error + 'item list"
  Query :: "int \<Rightarrow> 'item list \<times> error option"
  PutItem :: "'item \<Rightarrow> error option"
  MarshalMap :: "Product \<Rightarrow> error + 'item"
  UnmarshalMap :: "'item \<Rightarrow> error + Product"
  UnmarshalListOfMaps :: "'item list \<Rightarrow> error + Product list"

definition TableName :: string where
  "TableName = ''Products''"

text \<open>
  \<^verbatim>\<open>func (db Products) GetAll() ([]Product, error) {
    temp := []Product{}
    result, err := Items.Scan(...)
    if err != nil { return nil, fmt.Errorf("Query GetAll failed:\n%v", err) }
    err = dynamodbattribute.UnmarshalListOfMaps(result.Items, &temp)
    if err != nil { return nil, fmt.Errorf("Unmarshalling GetAll failed:\n%v", err) }
    sort.Slice(temp, func(i, j int) bool { return temp[i].Price > temp[j].Price })
    return temp, nil }\<close>
\<close>

definition dynamodb_GetAll :: "'item SDK \<Rightarrow> error + Product list" where
  "dynamodb_GetAll sdk =
     (case Scan sdk of
        Inl err \<Rightarrow> Inl (Errorf (''Query GetAll failed:\<newline>'' @ Error err))
      | Inr result_Items \<Rightarrow>
          (case UnmarshalListOfMaps sdk result_Items of
             Inl err \<Rightarrow> Inl (Errorf (''Unmarshalling GetAll failed:\<newline>'' @ Error err))
           | Inr temp \<Rightarrow> Inr (sort_Slice price_desc temp)))"

text \<open>
  \<^verbatim>\<open>func (db *Products) AddProduct(newProduct Product) error {
    data, err := dynamodbattribute.MarshalMap(newProduct)
    if err != nil { return fmt.Errorf("AddProduct -> Error marshalling product: %v", err) }
    _, err = Items.PutItem(item)
    if err != nil { return fmt.Errorf("AddProduct -> New product could not be added: %v", err) }
    return nil }\<close>
\<close>

definition dynamodb_AddProduct :: "'item SDK \<Rightarrow> Product \<Rightarrow> error option" where
  "dynamodb_AddProduct sdk newProduct =
     (case MarshalMap sdk newProduct of
        Inl err \<Rightarrow> Some (Errorf (''AddProduct -> Error marshalling product: '' @ Error err))
      | Inr data \<Rightarrow>
          (case PutItem sdk data of
             Some err \<Rightarrow>
               Some (Errorf (''AddProduct -> New product could not be added: '' @ Error err))
           | None \<Rightarrow> None))"

text \<open>
  \<^verbatim>\<open>func (db Products) GetProduct(product *Product) error {
    result, err := Items.Query(...)
    for _, i := range result.Items {
      var p Product
      err = dynamodbattribute.UnmarshalMap(i, &p)
      if err != nil { return fmt.Errorf("Unmarshalling GetProduct failed:\n%v", err) }
      *product = p
      return nil }
    return fmt.Errorf("Product <%v> does not exist", product.Id) }\<close>
  The \<open>err\<close> of \<open>Query\<close> is assigned and not read.
\<close>

definition dynamodb_GetProduct :: "'item SDK \<Rightarrow> Product \<Rightarrow> error + Product" where
  "dynamodb_GetProduct sdk product =
     (let (result_Items, err) = Query sdk (Id_p product) in
      case result_Items of
        i # _ \<Rightarrow>
          (case UnmarshalMap sdk i of
             Inl err \<Rightarrow> Inl (Errorf (''Unmarshalling GetProduct failed:\<newline>'' @ Error err))
           | Inr p \<Rightarrow> Inr p)
      | [] \<Rightarrow> Inl (does_not_exist (Id_p product)))"

text \<open>
  \<^verbatim>\<open>func enterTestData() error {
    products := []Product{ {1, "Apple", 0.98}, {2, "Orange", 0.98},
                           {3, "Bananas", 2.25}, {4, "Frozen Pizza", 4.99} }
    for _, p := range products {
      err := Items.AddProduct(p)
      if err != nil { return fmt.Errorf("Error entering test data: %v", err) } }
    return nil }\<close>
  The result is the products written to the table, in the order written, and the error.
\<close>

definition products :: "Product list" where
  "products =
     [\<lparr>Id_p = 1, Name = ''Apple'', Price = Finite 0.98\<rparr>,
      \<lparr>Id_p = 2, Name = ''Orange'', Price = Finite 0.98\<rparr>,
      \<lparr>Id_p = 3, Name = ''Bananas'', Price = Finite 2.25\<rparr>,
      \<lparr>Id_p = 4, Name = ''Frozen Pizza'', Price = Finite 4.99\<rparr>]"

fun enterTestData_loop :: "'item SDK \<Rightarrow> Product list \<Rightarrow> Product list \<times> error option" where
  "enterTestData_loop sdk [] = ([], None)"
| "enterTestData_loop sdk (p # ps) =
     (case dynamodb_AddProduct sdk p of
        Some err \<Rightarrow> ([], Some (Errorf (''Error entering test data: '' @ Error err)))
      | None \<Rightarrow> (let (written, e) = enterTestData_loop sdk ps in (p # written, e)))"

definition enterTestData :: "'item SDK \<Rightarrow> Product list \<times> error option" where
  "enterTestData sdk = enterTestData_loop sdk products"

text \<open>
  \<^verbatim>\<open>func createTable() error {
    if _, err := Items.CreateTable(input); err != nil { return fmt.Errorf("%v", err) }
    enterTestData()
    return nil }\<close>
  The error of \<open>enterTestData\<close> is dropped.
\<close>

definition createTable :: "'item SDK \<Rightarrow> Product list \<times> error option" where
  "createTable sdk =
     (case CreateTable sdk of
        Some err \<Rightarrow> ([], Some (Errorf (Error err)))
      | None \<Rightarrow> (let (written, _) = enterTestData sdk in (written, None)))"

text \<open>
  \<^verbatim>\<open>func (db *Products) tableExists(name string) (bool, error) {
    result, err := db.ListTables(...)
    if err != nil { return false, fmt.Errorf("%v", err) }
    for _, n := range result.TableNames { if *n == name { return true, nil } }
    return false, nil }\<close>
\<close>

definition tableExists :: "'item SDK \<Rightarrow> string \<Rightarrow> bool \<times> error option" where
  "tableExists sdk name =
     (case ListTables sdk of
        Inl err \<Rightarrow> (False, Some (Errorf (Error err)))
      | Inr result_TableNames \<Rightarrow> (name \<in> set result_TableNames, None))"

text \<open>
  \<^verbatim>\<open>func (db *Products) listTables() error {
    result, err := db.ListTables(...)
    if err != nil { return fmt.Errorf("%v", err) }
    ... print the names ...
    return nil }\<close>
\<close>

definition listTables :: "'item SDK \<Rightarrow> error option" where
  "listTables sdk =
     (case ListTables sdk of Inl err \<Rightarrow> Some (Errorf (Error err)) | Inr _ \<Rightarrow> None)"

text \<open>
  \<^verbatim>\<open>func Initialize() error {
    sess, err := session.NewSession(...)
    if err != nil { return fmt.Errorf("INITIALIZATION ERROR: %v", err) }
    Items = Products{dynamodb.New(sess, ...)}
    Items.listTables()
    tableExists, err := Items.tableExists(TableName)
    if err != nil { return fmt.Errorf("INITIALIZATION ERROR: %v", err) }
    if !tableExists { createTable() } else { fmt.Println("Table already exists!") }
    return nil }\<close>
  The results of \<open>listTables\<close> and of \<open>createTable\<close> are dropped. The result is
  the products written to the table and the error \<open>Initialize\<close> returns.
\<close>

definition dynamodb_Initialize :: "'item SDK \<Rightarrow> Product list \<times> error option" where
  "dynamodb_Initialize sdk =
     (case NewSession sdk of
        Some err \<Rightarrow> ([], Some (Errorf (''INITIALIZATION ERROR: '' @ Error err)))
      | None \<Rightarrow>
          (let _ = listTables sdk in
           case tableExists sdk TableName of
             (_, Some err) \<Rightarrow> ([], Some (Errorf (''INITIALIZATION ERROR: '' @ Error err)))
           | (exists, None) \<Rightarrow>
               (if \<not> exists then (let (written, _) = createTable sdk in (written, None))
                else ([], None))))"

text \<open>
  \<^verbatim>\<open>func main() {
    if initErr := db.Initialize(); initErr != nil { ...; log.Fatal(initErr.Error()) }
    ... serve ... }\<close>
  Startup aborts exactly when \<open>Initialize\<close> returns an error.
\<close>

definition startup_aborts :: "error option \<Rightarrow> bool" where
  "startup_aborts initErr = (initErr \<noteq> None)"

text \<open>A store that answers every call with success: no table yet, every item accepted.\<close>

definition accepting :: "Product SDK" where
  "accepting =
     \<lparr>NewSession = None, ListTables = Inr [], CreateTable = None, Scan = Inr [],
      Query = (\<lambda>_. ([], None)), PutItem = (\<lambda>_. None), MarshalMap = Inr,
      UnmarshalMap = Inr, UnmarshalListOfMaps = Inr\<rparr>"

section \<open>Facts about the scan\<close>

lemma scan_Id_None: "scan_Id k pArr = None \<longleftrightarrow> k \<notin> Id_p ` set pArr"
  by (induction pArr) auto

lemma GetProduct_miss:
  "Id_p product \<notin> Id_p ` set pArr \<Longrightarrow>
   dummydb_GetProduct pArr product = Inl (does_not_exist (Id_p product))"
  by (induction pArr) auto

lemma scan_Id_first:
  "\<forall>x \<in> set pre. Id_p x \<noteq> k \<Longrightarrow> Id_p q = k \<Longrightarrow> scan_Id k (pre @ q # post) = Some (length pre)"
  by (induction pre) auto

lemma GetProduct_first:
  "\<forall>x \<in> set pre. Id_p x \<noteq> Id_p product \<Longrightarrow> Id_p q = Id_p product \<Longrightarrow>
   dummydb_GetProduct (pre @ q # post) product = Inr q"
  by (induction pre) auto

lemma scan_Id_Some:
  "scan_Id k pArr = Some i \<Longrightarrow>
   i < length pArr \<and> Id_p (pArr ! i) = k \<and> (\<forall>j < i. Id_p (pArr ! j) \<noteq> k)"
proof (induction pArr arbitrary: i)
  case Nil
  then show ?case by simp
next
  case (Cons p pArr)
  show ?case
  proof (cases "Id_p p = k")
    case True
    with Cons.prems show ?thesis by simp
  next
    case False
    with Cons.prems obtain i' where i': "scan_Id k pArr = Some i'" "i = Suc i'"
      by auto
    from Cons.IH [OF i'(1)] False i'(2) show ?thesis
      by (auto simp: nth_Cons split: nat.splits)
  qed
qed

lemma scan_Id_present: "k \<in> Id_p ` set pArr \<Longrightarrow> \<exists>i. scan_Id k pArr = Some i"
  using scan_Id_None [of k pArr] by (cases "scan_Id k pArr") auto

text \<open>
  When exactly one element satisfies \<open>P\<close> and it stands at index \<open>i\<close>, cutting index
  \<open>i\<close> out is filtering \<open>P\<close> out, and nothing that is left satisfies \<open>P\<close>.
\<close>

lemma filter_out_single:
  assumes one: "length (filter P xs) = 1" and i: "i < length xs" and hit: "P (xs ! i)"
  shows "filter (\<lambda>x. \<not> P x) xs = take i xs @ drop (Suc i) xs"
    and "\<forall>x \<in> set (take i xs @ drop (Suc i) xs). \<not> P x"
proof -
  have split: "xs = take i xs @ xs ! i # drop (Suc i) xs"
    using i by (rule id_take_nth_drop)
  have "length (filter P xs) =
      length (filter P (take i xs)) + 1 + length (filter P (drop (Suc i) xs))"
    by (subst split) (simp add: hit)
  with one have "filter P (take i xs) = []" and "filter P (drop (Suc i) xs) = []"
    by simp_all
  then have none: "\<forall>x \<in> set (take i xs). \<not> P x" "\<forall>x \<in> set (drop (Suc i) xs). \<not> P x"
    by (simp_all add: filter_empty_conv)
  then show "\<forall>x \<in> set (take i xs @ drop (Suc i) xs). \<not> P x"
    by auto
  have "filter (\<lambda>x. \<not> P x) xs =
      filter (\<lambda>x. \<not> P x) (take i xs) @ filter (\<lambda>x. \<not> P x) (xs ! i # drop (Suc i) xs)"
    by (subst split) simp
  also have "\<dots> = take i xs @ drop (Suc i) xs"
    using none hit by (simp add: filter_id_conv)
  finally show "filter (\<lambda>x. \<not> P x) xs = take i xs @ drop (Suc i) xs" .
qed

section \<open>Facts about the sort\<close>

text \<open>Away from NaN, the comparisons of \<open>float64\<close> are those of a linear order.\<close>

lemma float_gt_ge: "float_gt x y \<Longrightarrow> float_ge x y"
  by (cases x; cases y) auto

lemma not_float_gt_ge: "\<not> float_gt x y \<Longrightarrow> x \<noteq> NaN \<Longrightarrow> y \<noteq> NaN \<Longrightarrow> float_ge y x"
  by (cases x; cases y) auto

lemma float_ge_trans: "float_ge x y \<Longrightarrow> float_ge y z \<Longrightarrow> float_ge x z"
  by (cases x; cases y; cases z) auto

text \<open>One pass of the inner loop adds the element and keeps what was there.\<close>

lemma sink_mset: "mset (sink lt x ys) = add_mset x (mset ys)"
  by (induction ys) auto

lemma sink_set: "set (sink lt x ys) = insert x (set ys)"
  by (induction ys) auto

text \<open>
  The part already passed is read right to left, so it ascends in price exactly when the
  slice descends; without NaN, one pass of the inner loop keeps it ascending.
\<close>

lemma sink_sorted:
  assumes "sorted_wrt (\<lambda>a b. float_ge (Price b) (Price a)) ys"
    and "Price x \<noteq> NaN" and "\<forall>y \<in> set ys. Price y \<noteq> NaN"
  shows "sorted_wrt (\<lambda>a b. float_ge (Price b) (Price a)) (sink price_desc x ys)"
  using assms
proof (induction ys)
  case Nil
  then show ?case by simp
next
  case (Cons y ys)
  show ?case
  proof (cases "float_gt (Price x) (Price y)")
    case True
    with Cons show ?thesis
      by (auto simp: sink_set price_desc_def float_gt_ge)
  next
    case False
    with Cons.prems have le: "float_ge (Price y) (Price x)"
      by (simp add: not_float_gt_ge)
    have "float_ge (Price z) (Price x)" if "z \<in> set ys" for z
      using that Cons.prems(1) le by (auto intro: float_ge_trans)
    with False le Cons.prems(1) show ?thesis
      by (simp add: price_desc_def)
  qed
qed

lemma foldl_sink_sorted:
  "sorted_wrt (\<lambda>a b. float_ge (Price b) (Price a)) ys \<Longrightarrow>
   \<forall>y \<in> set ys \<union> set xs. Price y \<noteq> NaN \<Longrightarrow>
   sorted_wrt (\<lambda>a b. float_ge (Price b) (Price a)) (foldl (\<lambda>ys x. sink price_desc x ys) ys xs)"
proof (induction xs arbitrary: ys)
  case Nil
  then show ?case by simp
next
  case (Cons x xs)
  have "sorted_wrt (\<lambda>a b. float_ge (Price b) (Price a)) (sink price_desc x ys)"
    using Cons.prems by (intro sink_sorted) auto
  moreover have "\<forall>y \<in> set (sink price_desc x ys) \<union> set xs. Price y \<noteq> NaN"
    using Cons.prems(2) by (auto simp: sink_set)
  ultimately show ?case
    using Cons.IH by simp
qed

lemma foldl_sink_mset:
  "mset (foldl (\<lambda>ys x. sink lt x ys) ys xs) = mset ys + mset xs"
  by (induction xs arbitrary: ys) (auto simp: sink_mset)

lemma sort_Slice_mset: "mset (sort_Slice lt xs) = mset xs"
  by (simp add: sort_Slice_def foldl_sink_mset)

lemma sort_Slice_prices:
  "\<forall>p \<in> set xs. Price p \<noteq> NaN \<Longrightarrow>
   sorted_wrt float_ge (map Price (sort_Slice price_desc xs))"
  using foldl_sink_sorted [of "[]" xs] by (simp add: sort_Slice_def sorted_wrt_rev sorted_wrt_map)

section \<open>The sort invariant of List\<close>

text \<open>
  C1, as amended. \<open>GetAll\<close> returns the products in an order in which the prices
  never increase, provided no price is NaN. On the ephemeral backend it always succeeds
  and returns every product of the catalog; when no price of the catalog is NaN, the
  prices of the result never increase. On the persistent backend, whenever it succeeds,
  what it returns is what the scan yielded, and when no price among them is NaN, the
  prices never increase. On the catalog (1, Apple, 0.98), (2, Orange, 0.98),
  (3, Bananas, 2.25), (4, Pizza, 4.99) the result is the 4.99 item, then the 2.25 item,
  then the two 0.98 items (in one order or the other).
\<close>

theorem GetAll_price_descending:
  "(\<exists>ps. dummydb_GetAll pArr = (ps, Inr ps) \<and> mset ps = mset pArr
       \<and> ((\<forall>p \<in> set pArr. Price p \<noteq> NaN) \<longrightarrow> sorted_wrt float_ge (map Price ps)))
   \<and> (\<forall>ps. dynamodb_GetAll sdk = Inr ps \<longrightarrow>
         (\<exists>result_Items temp. Scan sdk = Inr result_Items
               \<and> UnmarshalListOfMaps sdk result_Items = Inr temp \<and> mset ps = mset temp)
         \<and> ((\<forall>p \<in> set ps. Price p \<noteq> NaN) \<longrightarrow> sorted_wrt float_ge (map Price ps)))
   \<and> (\<exists>ps. snd (dummydb_GetAll
          [\<lparr>Id_p = 1, Name = ''Apple'', Price = Finite 0.98\<rparr>,
           \<lparr>Id_p = 2, Name = ''Orange'', Price = Finite 0.98\<rparr>,
           \<lparr>Id_p = 3, Name = ''Bananas'', Price = Finite 2.25\<rparr>,
           \<lparr>Id_p = 4, Name = ''Pizza'', Price = Finite 4.99\<rparr>])
         = Inr ps
       \<and> map Price ps = [Finite 4.99, Finite 2.25, Finite 0.98, Finite 0.98]
       \<and> ps ! 0 = \<lparr>Id_p = 4, Name = ''Pizza'', Price = Finite 4.99\<rparr>
       \<and> ps ! 1 = \<lparr>Id_p = 3, Name = ''Bananas'', Price = Finite 2.25\<rparr>
       \<and> set (drop 2 ps) = {\<lparr>Id_p = 1, Name = ''Apple'', Price = Finite 0.98\<rparr>,
                             \<lparr>Id_p = 2, Name = ''Orange'', Price = Finite 0.98\<rparr>})"
proof (intro conjI)
  show "\<exists>ps. dummydb_GetAll pArr = (ps, Inr ps) \<and> mset ps = mset pArr
       \<and> ((\<forall>p \<in> set pArr. Price p \<noteq> NaN) \<longrightarrow> sorted_wrt float_ge (map Price ps))"
    by (simp add: dummydb_GetAll_def Let_def sort_Slice_prices sort_Slice_mset)
  show "\<forall>ps. dynamodb_GetAll sdk = Inr ps \<longrightarrow>
         (\<exists>result_Items temp. Scan sdk = Inr result_Items
               \<and> UnmarshalListOfMaps sdk result_Items = Inr temp \<and> mset ps = mset temp)
         \<and> ((\<forall>p \<in> set ps. Price p \<noteq> NaN) \<longrightarrow> sorted_wrt float_ge (map Price ps))"
  proof (intro allI impI)
    fix ps
    assume run: "dynamodb_GetAll sdk = Inr ps"
    then obtain result_Items temp where parts: "Scan sdk = Inr result_Items"
      "UnmarshalListOfMaps sdk result_Items = Inr temp" "ps = sort_Slice price_desc temp"
      by (auto simp: dynamodb_GetAll_def split: sum.splits)
    have same: "mset ps = mset temp"
      by (simp add: parts(3) sort_Slice_mset)
    have "sorted_wrt float_ge (map Price ps)" if "\<forall>p \<in> set ps. Price p \<noteq> NaN"
    proof -
      from that have "\<forall>p \<in> set temp. Price p \<noteq> NaN"
        using mset_eq_setD [OF same] by simp
      then show ?thesis
        unfolding parts(3) by (rule sort_Slice_prices)
    qed
    with parts(1,2) same
    show "(\<exists>result_Items temp. Scan sdk = Inr result_Items
               \<and> UnmarshalListOfMaps sdk result_Items = Inr temp \<and> mset ps = mset temp)
         \<and> ((\<forall>p \<in> set ps. Price p \<noteq> NaN) \<longrightarrow> sorted_wrt float_ge (map Price ps))"
      by blast
  qed
  show "\<exists>ps. snd (dummydb_GetAll
          [\<lparr>Id_p = 1, Name = ''Apple'', Price = Finite 0.98\<rparr>,
           \<lparr>Id_p = 2, Name = ''Orange'', Price = Finite 0.98\<rparr>,
           \<lparr>Id_p = 3, Name = ''Bananas'', Price = Finite 2.25\<rparr>,
           \<lparr>Id_p = 4, Name = ''Pizza'', Price = Finite 4.99\<rparr>])
         = Inr ps
       \<and> map Price ps = [Finite 4.99, Finite 2.25, Finite 0.98, Finite 0.98]
       \<and> ps ! 0 = \<lparr>Id_p = 4, Name = ''Pizza'', Price = Finite 4.99\<rparr>
       \<and> ps ! 1 = \<lparr>Id_p = 3, Name = ''Bananas'', Price = Finite 2.25\<rparr>
       \<and> set (drop 2 ps) = {\<lparr>Id_p = 1, Name = ''Apple'', Price = Finite 0.98\<rparr>,
                             \<lparr>Id_p = 2, Name = ''Orange'', Price = Finite 0.98\<rparr>}"
    by (simp add: dummydb_GetAll_def Let_def sort_Slice_def price_desc_def)
qed

text \<open>
  Both backends on the seed products, none of which has the price NaN: the persistent one
  on a scan that yields them.
\<close>

theorem GetAll_price_descending_witness:
  "NaN \<notin> Price ` set (fst dummydb_Initialize)
   \<and> dummydb_GetAll (fst dummydb_Initialize)
     = ([\<lparr>Id_p = 4, Name = ''Frozen Pizza'', Price = Finite 4.99\<rparr>,
         \<lparr>Id_p = 3, Name = ''Bananas'', Price = Finite 2.25\<rparr>,
         \<lparr>Id_p = 1, Name = ''Apple'', Price = Finite 0.98\<rparr>,
         \<lparr>Id_p = 2, Name = ''Orange'', Price = Finite 0.98\<rparr>],
        Inr [\<lparr>Id_p = 4, Name = ''Frozen Pizza'', Price = Finite 4.99\<rparr>,
             \<lparr>Id_p = 3, Name = ''Bananas'', Price = Finite 2.25\<rparr>,
             \<lparr>Id_p = 1, Name = ''Apple'', Price = Finite 0.98\<rparr>,
             \<lparr>Id_p = 2, Name = ''Orange'', Price = Finite 0.98\<rparr>])
   \<and> dynamodb_GetAll (accepting\<lparr>Scan := Inr (fst dummydb_Initialize)\<rparr>)
     = Inr [\<lparr>Id_p = 4, Name = ''Frozen Pizza'', Price = Finite 4.99\<rparr>,
            \<lparr>Id_p = 3, Name = ''Bananas'', Price = Finite 2.25\<rparr>,
            \<lparr>Id_p = 1, Name = ''Apple'', Price = Finite 0.98\<rparr>,
            \<lparr>Id_p = 2, Name = ''Orange'', Price = Finite 0.98\<rparr>]
   \<and> sorted_wrt float_ge [Finite 4.99, Finite 2.25, Finite 0.98, Finite 0.98]"
proof -
  have clean: "\<forall>p \<in> set (fst dummydb_Initialize). Price p \<noteq> NaN"
    by (simp add: dummydb_Initialize_def)
  have run: "dynamodb_GetAll (accepting\<lparr>Scan := Inr (fst dummydb_Initialize)\<rparr>)
     = Inr [\<lparr>Id_p = 4, Name = ''Frozen Pizza'', Price = Finite 4.99\<rparr>,
            \<lparr>Id_p = 3, Name = ''Bananas'', Price = Finite 2.25\<rparr>,
            \<lparr>Id_p = 1, Name = ''Apple'', Price = Finite 0.98\<rparr>,
            \<lparr>Id_p = 2, Name = ''Orange'', Price = Finite 0.98\<rparr>]"
    by (simp add: dynamodb_GetAll_def accepting_def dummydb_Initialize_def sort_Slice_def
        price_desc_def)
  have local: "dummydb_GetAll (fst dummydb_Initialize)
     = ([\<lparr>Id_p = 4, Name = ''Frozen Pizza'', Price = Finite 4.99\<rparr>,
         \<lparr>Id_p = 3, Name = ''Bananas'', Price = Finite 2.25\<rparr>,
         \<lparr>Id_p = 1, Name = ''Apple'', Price = Finite 0.98\<rparr>,
         \<lparr>Id_p = 2, Name = ''Orange'', Price = Finite 0.98\<rparr>],
        Inr [\<lparr>Id_p = 4, Name = ''Frozen Pizza'', Price = Finite 4.99\<rparr>,
             \<lparr>Id_p = 3, Name = ''Bananas'', Price = Finite 2.25\<rparr>,
             \<lparr>Id_p = 1, Name = ''Apple'', Price = Finite 0.98\<rparr>,
             \<lparr>Id_p = 2, Name = ''Orange'', Price = Finite 0.98\<rparr>])"
    by (simp add: dummydb_GetAll_def Let_def dummydb_Initialize_def sort_Slice_def price_desc_def)
  from GetAll_price_descending
    [of "fst dummydb_Initialize" "accepting\<lparr>Scan := Inr (fst dummydb_Initialize)\<rparr>"]
  have "sorted_wrt float_ge
      (map Price [\<lparr>Id_p = 4, Name = ''Frozen Pizza'', Price = Finite 4.99\<rparr>,
                  \<lparr>Id_p = 3, Name = ''Bananas'', Price = Finite 2.25\<rparr>,
                  \<lparr>Id_p = 1, Name = ''Apple'', Price = Finite 0.98\<rparr>,
                  \<lparr>Id_p = 2, Name = ''Orange'', Price = Finite 0.98\<rparr>])"
    using clean local by auto
  moreover have "NaN \<notin> Price ` set (fst dummydb_Initialize)"
    by (simp add: dummydb_Initialize_def)
  ultimately show ?thesis
    using local run by simp
qed

text \<open>
  With a NaN among the prices the order fails. The catalog holds the prices 1, NaN,
  +Inf, 3, 2 in this order; every comparison the sort makes is false (NaN is on one side,
  or the later price is the smaller one), so \<open>GetAll\<close> returns the catalog as it
  stands: 1 before +Inf and before 3, and the prices do increase.
\<close>

theorem GetAll_NaN_not_descending:
  "snd (dummydb_GetAll
      [\<lparr>Id_p = 1, Name = ''Apple'', Price = Finite 1\<rparr>,
       \<lparr>Id_p = 2, Name = ''Orange'', Price = NaN\<rparr>,
       \<lparr>Id_p = 3, Name = ''Bananas'', Price = PosInf\<rparr>,
       \<lparr>Id_p = 4, Name = ''Pizza'', Price = Finite 3\<rparr>,
       \<lparr>Id_p = 5, Name = ''Pear'', Price = Finite 2\<rparr>])
     = Inr [\<lparr>Id_p = 1, Name = ''Apple'', Price = Finite 1\<rparr>,
            \<lparr>Id_p = 2, Name = ''Orange'', Price = NaN\<rparr>,
            \<lparr>Id_p = 3, Name = ''Bananas'', Price = PosInf\<rparr>,
            \<lparr>Id_p = 4, Name = ''Pizza'', Price = Finite 3\<rparr>,
            \<lparr>Id_p = 5, Name = ''Pear'', Price = Finite 2\<rparr>]
   \<and> \<not> sorted_wrt float_ge [Finite 1, NaN, PosInf, Finite 3, Finite 2]
   \<and> float_gt (Finite 3) (Finite 1)"
  by (simp add: dummydb_GetAll_def Let_def sort_Slice_def price_desc_def)

section \<open>Insert, then Get\<close>

text \<open>
  C2, as amended. On the ephemeral backend, for a product \<open>p\<close> and a catalog that
  holds no entry with the id of \<open>p\<close>, \<open>AddProduct p\<close> succeeds, and \<open>GetProduct\<close>
  with that id on the catalog it leaves then succeeds and yields \<open>p\<close> itself: the same
  id, name and price.
\<close>

theorem insert_then_get_fresh_id:
  assumes "Id_p p \<notin> Id_p ` set pArr" and "Id_p product = Id_p p"
  shows "snd (dummydb_AddProduct pArr p) = None
    \<and> dummydb_GetProduct (fst (dummydb_AddProduct pArr p)) product = Inr p"
proof -
  from assms have "\<forall>x \<in> set pArr. Id_p x \<noteq> Id_p product"
    by (metis imageI)
  then have "dummydb_GetProduct (pArr @ p # []) product = Inr p"
    using assms(2) by (intro GetProduct_first) simp_all
  then show ?thesis
    by (simp add: dummydb_AddProduct_def)
qed

theorem insert_then_get_fresh_id_witness:
  "(5::int) \<notin> Id_p ` set (fst dummydb_Initialize)
   \<and> snd (dummydb_AddProduct (fst dummydb_Initialize) \<lparr>Id_p = 5, Name = ''Pear'', Price = Finite 3\<rparr>) = None
   \<and> dummydb_GetProduct
        (fst (dummydb_AddProduct (fst dummydb_Initialize) \<lparr>Id_p = 5, Name = ''Pear'', Price = Finite 3\<rparr>))
        \<lparr>Id_p = 5, Name = [], Price = Finite 0\<rparr>
      = Inr \<lparr>Id_p = 5, Name = ''Pear'', Price = Finite 3\<rparr>"
proof -
  have fresh: "Id_p \<lparr>Id_p = 5, Name = ''Pear'', Price = Finite 3\<rparr> \<notin> Id_p ` set (fst dummydb_Initialize)"
    by (simp add: dummydb_Initialize_def)
  have same: "Id_p \<lparr>Id_p = 5, Name = [], Price = Finite 0\<rparr> = Id_p \<lparr>Id_p = 5, Name = ''Pear'', Price = Finite 3\<rparr>"
    by simp
  from insert_then_get_fresh_id [OF fresh same] fresh show ?thesis
    by simp
qed

text \<open>
  Without that condition the round trip fails: the catalog holds (1, Apple, 0.98), the
  product (1, Pear, 3) is added, and \<open>GetProduct\<close> with id 1 does not yield the pear
  (the scan stops at the apple).
\<close>

theorem insert_then_get_shadowed:
  "dummydb_GetProduct
     (fst (dummydb_AddProduct [\<lparr>Id_p = 1, Name = ''Apple'', Price = Finite 0.98\<rparr>]
        \<lparr>Id_p = 1, Name = ''Pear'', Price = Finite 3\<rparr>))
     \<lparr>Id_p = 1, Name = [], Price = Finite 0\<rparr>
   \<noteq> Inr \<lparr>Id_p = 1, Name = ''Pear'', Price = Finite 3\<rparr>"
  by (simp add: dummydb_AddProduct_def)

section \<open>The not-found contract\<close>

text \<open>
  C3. On the ephemeral backend, for an id that no entry of the catalog has, Get, Update
  and Delete each return the error "Product <id> does not exist", which carries that id,
  and leave the catalog as it was: the same elements in the same order. (\<open>GetProduct\<close>
  only reads the catalog; the other two return the catalog they leave.)
\<close>

theorem not_found_contract:
  assumes "k \<notin> Id_p ` set pArr" and "Id_p p = k"
  shows "dummydb_GetProduct pArr p = Inl (does_not_exist k)
    \<and> dummydb_UpdateProduct pArr p = (pArr, Some (does_not_exist k))
    \<and> dummydb_DeleteProduct pArr p = (pArr, Some (does_not_exist k))
    \<and> does_not_exist k = Errorf (''Product <'' @ itoa k @ ''> does not exist'')"
proof -
  from assms have "scan_Id (Id_p p) pArr = None"
    by (simp add: scan_Id_None)
  then have "dummydb_UpdateProduct pArr p = (pArr, Some (does_not_exist k))"
    and "dummydb_DeleteProduct pArr p = (pArr, Some (does_not_exist k))"
    using assms(2) by (simp_all add: dummydb_UpdateProduct_def dummydb_DeleteProduct_def)
  moreover from assms have "dummydb_GetProduct pArr p = Inl (does_not_exist k)"
    using GetProduct_miss [of p pArr] by simp
  ultimately show ?thesis
    by (simp add: does_not_exist_def)
qed

theorem not_found_contract_witness:
  "(7::int) \<notin> Id_p ` set (fst dummydb_Initialize)
   \<and> dummydb_GetProduct (fst dummydb_Initialize) \<lparr>Id_p = 7, Name = [], Price = Finite 0\<rparr>
       = Inl (Errorf ''Product <7> does not exist'')
   \<and> dummydb_UpdateProduct (fst dummydb_Initialize) \<lparr>Id_p = 7, Name = [], Price = Finite 0\<rparr>
       = (fst dummydb_Initialize, Some (Errorf ''Product <7> does not exist''))
   \<and> dummydb_DeleteProduct (fst dummydb_Initialize) \<lparr>Id_p = 7, Name = [], Price = Finite 0\<rparr>
       = (fst dummydb_Initialize, Some (Errorf ''Product <7> does not exist''))"
proof -
  have absent: "(7::int) \<notin> Id_p ` set (fst dummydb_Initialize)"
    by (simp add: dummydb_Initialize_def)
  have msg: "does_not_exist 7 = Errorf ''Product <7> does not exist''"
    by (simp add: does_not_exist_def itoa_def digits.simps)
  from not_found_contract [OF absent, of "\<lparr>Id_p = 7, Name = [], Price = Finite 0\<rparr>"] absent msg
  show ?thesis by simp
qed

section \<open>Update in place\<close>

text \<open>
  C4. On the ephemeral backend, when the catalog holds an entry with the id of \<open>p\<close>,
  \<open>UpdateProduct p\<close> succeeds and writes \<open>p\<close> over one entry, the first with that
  id: afterwards that entry has the name and the price of \<open>p\<close> and the id it had,
  every other entry is what it was, and the catalog has as many entries as before.
\<close>

theorem update_in_place:
  assumes "Id_p p \<in> Id_p ` set pArr"
  shows "\<exists>i. i < length pArr \<and> Id_p (pArr ! i) = Id_p p \<and> (\<forall>j < i. Id_p (pArr ! j) \<noteq> Id_p p)
    \<and> dummydb_UpdateProduct pArr p = (pArr[i := p], None)
    \<and> length (fst (dummydb_UpdateProduct pArr p)) = length pArr
    \<and> Id_p (fst (dummydb_UpdateProduct pArr p) ! i) = Id_p (pArr ! i)
    \<and> Name (fst (dummydb_UpdateProduct pArr p) ! i) = Name p
    \<and> Price (fst (dummydb_UpdateProduct pArr p) ! i) = Price p
    \<and> (\<forall>j < length pArr. j \<noteq> i \<longrightarrow> fst (dummydb_UpdateProduct pArr p) ! j = pArr ! j)"
proof -
  from assms obtain i where scan: "scan_Id (Id_p p) pArr = Some i"
    using scan_Id_present by blast
  then have i: "i < length pArr" "Id_p (pArr ! i) = Id_p p" "\<forall>j < i. Id_p (pArr ! j) \<noteq> Id_p p"
    using scan_Id_Some by blast+
  have upd: "dummydb_UpdateProduct pArr p = (pArr[i := p], None)"
    by (simp add: dummydb_UpdateProduct_def scan)
  show ?thesis
  proof (intro exI [of _ i] conjI)
    show "\<forall>j < length pArr. j \<noteq> i \<longrightarrow> fst (dummydb_UpdateProduct pArr p) ! j = pArr ! j"
      by (simp add: upd)
    show "\<forall>j < i. Id_p (pArr ! j) \<noteq> Id_p p"
      by (rule i(3))
  qed (use i in \<open>simp_all add: upd\<close>)
qed

text \<open>The update of the spec: (3, Bananas!, 2.50) on the seed catalog.\<close>

theorem update_in_place_witness:
  "(3::int) \<in> Id_p ` set (fst dummydb_Initialize)
   \<and> dummydb_UpdateProduct (fst dummydb_Initialize) \<lparr>Id_p = 3, Name = ''Bananas!'', Price = Finite 2.50\<rparr>
      = ([\<lparr>Id_p = 1, Name = ''Apple'', Price = Finite 0.98\<rparr>,
          \<lparr>Id_p = 2, Name = ''Orange'', Price = Finite 0.98\<rparr>,
          \<lparr>Id_p = 3, Name = ''Bananas!'', Price = Finite 2.50\<rparr>,
          \<lparr>Id_p = 4, Name = ''Frozen Pizza'', Price = Finite 4.99\<rparr>], None)"
proof -
  have present: "Id_p \<lparr>Id_p = 3, Name = ''Bananas!'', Price = Finite 2.50\<rparr> \<in> Id_p ` set (fst dummydb_Initialize)"
    by (simp add: dummydb_Initialize_def)
  from update_in_place [OF present] obtain i where
    "i < length (fst dummydb_Initialize)"
    "Id_p (fst dummydb_Initialize ! i) = 3"
    "dummydb_UpdateProduct (fst dummydb_Initialize) \<lparr>Id_p = 3, Name = ''Bananas!'', Price = Finite 2.50\<rparr>
      = ((fst dummydb_Initialize)[i := \<lparr>Id_p = 3, Name = ''Bananas!'', Price = Finite 2.50\<rparr>], None)"
    by auto
  moreover from this(1,2) have "i = 2"
    by (auto simp: dummydb_Initialize_def nth_Cons less_Suc_eq split: nat.splits)
  ultimately show ?thesis
    using present by (simp add: dummydb_Initialize_def)
qed

section \<open>Delete\<close>

text \<open>
  C5. On the ephemeral backend, when exactly one entry of the catalog has the id of
  \<open>p\<close>, \<open>DeleteProduct p\<close> succeeds and cuts that entry out: the catalog is one
  entry shorter, it holds the entries with another id, all of them, in the order they
  had, and a second \<open>DeleteProduct p\<close> returns "Product <id> does not exist" and
  changes nothing.
\<close>

theorem delete_exactly_one:
  assumes "length (filter (\<lambda>q. Id_p q = Id_p p) pArr) = 1"
  shows "\<exists>i. i < length pArr \<and> Id_p (pArr ! i) = Id_p p
    \<and> dummydb_DeleteProduct pArr p = (take i pArr @ drop (Suc i) pArr, None)
    \<and> Suc (length (fst (dummydb_DeleteProduct pArr p))) = length pArr
    \<and> fst (dummydb_DeleteProduct pArr p) = filter (\<lambda>q. Id_p q \<noteq> Id_p p) pArr
    \<and> dummydb_DeleteProduct (fst (dummydb_DeleteProduct pArr p)) p
        = (fst (dummydb_DeleteProduct pArr p), Some (does_not_exist (Id_p p)))"
proof -
  from assms have "filter (\<lambda>q. Id_p q = Id_p p) pArr \<noteq> []"
    by auto
  then have "Id_p p \<in> Id_p ` set pArr"
    by (auto simp: filter_empty_conv) (metis imageI)
  then obtain i where scan: "scan_Id (Id_p p) pArr = Some i"
    using scan_Id_present by blast
  then have i: "i < length pArr" "Id_p (pArr ! i) = Id_p p"
    using scan_Id_Some by blast+
  let ?rest = "take i pArr @ drop (Suc i) pArr"
  have del: "dummydb_DeleteProduct pArr p = (?rest, None)"
    by (simp add: dummydb_DeleteProduct_def scan)
  have rest: "filter (\<lambda>q. \<not> Id_p q = Id_p p) pArr = ?rest"
    and gone: "\<forall>x \<in> set ?rest. \<not> Id_p x = Id_p p"
    using filter_out_single [of "\<lambda>q. Id_p q = Id_p p" pArr i] assms i by blast+
  from gone have "scan_Id (Id_p p) ?rest = None"
    unfolding scan_Id_None by (auto simp: image_iff)
  then have again: "dummydb_DeleteProduct ?rest p = (?rest, Some (does_not_exist (Id_p p)))"
    by (simp add: dummydb_DeleteProduct_def)
  have len: "Suc (length ?rest) = length pArr"
    using i(1) by simp
  show ?thesis
    using i del rest again len by (intro exI [of _ i]) simp
qed

text \<open>Deleting id 2 from the seed catalog, twice.\<close>

theorem delete_exactly_one_witness:
  "length (filter (\<lambda>q. Id_p q = 2) (fst dummydb_Initialize)) = 1
   \<and> dummydb_DeleteProduct (fst dummydb_Initialize) \<lparr>Id_p = 2, Name = [], Price = Finite 0\<rparr>
      = ([\<lparr>Id_p = 1, Name = ''Apple'', Price = Finite 0.98\<rparr>,
          \<lparr>Id_p = 3, Name = ''Bananas'', Price = Finite 2.25\<rparr>,
          \<lparr>Id_p = 4, Name = ''Frozen Pizza'', Price = Finite 4.99\<rparr>], None)
   \<and> dummydb_DeleteProduct
        [\<lparr>Id_p = 1, Name = ''Apple'', Price = Finite 0.98\<rparr>,
         \<lparr>Id_p = 3, Name = ''Bananas'', Price = Finite 2.25\<rparr>,
         \<lparr>Id_p = 4, Name = ''Frozen Pizza'', Price = Finite 4.99\<rparr>] \<lparr>Id_p = 2, Name = [], Price = Finite 0\<rparr>
      = ([\<lparr>Id_p = 1, Name = ''Apple'', Price = Finite 0.98\<rparr>,
          \<lparr>Id_p = 3, Name = ''Bananas'', Price = Finite 2.25\<rparr>,
          \<lparr>Id_p = 4, Name = ''Frozen Pizza'', Price = Finite 4.99\<rparr>],
         Some (Errorf ''Product <2> does not exist''))"
proof -
  have one: "length (filter (\<lambda>q. Id_p q = Id_p \<lparr>Id_p = 2, Name = [], Price = Finite 0\<rparr>) (fst dummydb_Initialize)) = 1"
    by (simp add: dummydb_Initialize_def)
  have msg: "does_not_exist 2 = Errorf ''Product <2> does not exist''"
    by (simp add: does_not_exist_def itoa_def digits.simps)
  have rest: "filter (\<lambda>q. Id_p q \<noteq> 2) (fst dummydb_Initialize)
      = [\<lparr>Id_p = 1, Name = ''Apple'', Price = Finite 0.98\<rparr>,
         \<lparr>Id_p = 3, Name = ''Bananas'', Price = Finite 2.25\<rparr>,
         \<lparr>Id_p = 4, Name = ''Frozen Pizza'', Price = Finite 4.99\<rparr>]"
    by (simp add: dummydb_Initialize_def)
  from delete_exactly_one [OF one] obtain i where
    "dummydb_DeleteProduct (fst dummydb_Initialize) \<lparr>Id_p = 2, Name = [], Price = Finite 0\<rparr>
       = (take i (fst dummydb_Initialize) @ drop (Suc i) (fst dummydb_Initialize), None)"
    "fst (dummydb_DeleteProduct (fst dummydb_Initialize) \<lparr>Id_p = 2, Name = [], Price = Finite 0\<rparr>)
       = filter (\<lambda>q. Id_p q \<noteq> 2) (fst dummydb_Initialize)"
    "dummydb_DeleteProduct
        (fst (dummydb_DeleteProduct (fst dummydb_Initialize) \<lparr>Id_p = 2, Name = [], Price = Finite 0\<rparr>))
        \<lparr>Id_p = 2, Name = [], Price = Finite 0\<rparr>
      = (fst (dummydb_DeleteProduct (fst dummydb_Initialize) \<lparr>Id_p = 2, Name = [], Price = Finite 0\<rparr>),
         Some (does_not_exist 2))"
    by auto
  then show ?thesis
    using one rest msg by simp
qed

section \<open>List and the stored order\<close>

text \<open>
  C6. The claim is that \<open>GetAll\<close> leaves the stored order as it was. On the seed
  catalog it does not: after the call \<open>Items\<close> holds the products in the sorted order,
  which is not the order they were stored in.
\<close>

theorem GetAll_reorders_Items:
  "fst (dummydb_GetAll (fst dummydb_Initialize))
     = [\<lparr>Id_p = 4, Name = ''Frozen Pizza'', Price = Finite 4.99\<rparr>,
        \<lparr>Id_p = 3, Name = ''Bananas'', Price = Finite 2.25\<rparr>,
        \<lparr>Id_p = 1, Name = ''Apple'', Price = Finite 0.98\<rparr>,
        \<lparr>Id_p = 2, Name = ''Orange'', Price = Finite 0.98\<rparr>]
   \<and> fst (dummydb_GetAll (fst dummydb_Initialize)) \<noteq> fst dummydb_Initialize"
  by (simp add: dummydb_GetAll_def Let_def dummydb_Initialize_def sort_Slice_def price_desc_def)

section \<open>Errors of the store\<close>

text \<open>
  C7. The claim is that every failure of the store reaches the caller as an error of its
  own kind. Three runs where it does not: \<open>Query\<close> fails, and \<open>GetProduct\<close>
  answers "Product <3> does not exist"; \<open>CreateTable\<close> fails, and \<open>Initialize\<close>
  returns no error, so startup does not abort; every \<open>PutItem\<close> of the seed data
  fails, and \<open>Initialize\<close> returns no error either.
\<close>

theorem storage_failures_dropped:
  "dynamodb_GetProduct (accepting\<lparr>Query := \<lambda>_. ([], Some (Errorf ''connection refused''))\<rparr>)
       \<lparr>Id_p = 3, Name = [], Price = Finite 0\<rparr>
     = Inl (Errorf ''Product <3> does not exist'')
   \<and> dynamodb_Initialize (accepting\<lparr>CreateTable := Some (Errorf ''connection refused'')\<rparr>)
     = ([], None)
   \<and> \<not> startup_aborts
       (snd (dynamodb_Initialize (accepting\<lparr>CreateTable := Some (Errorf ''connection refused'')\<rparr>)))
   \<and> dynamodb_Initialize (accepting\<lparr>PutItem := \<lambda>_. Some (Errorf ''connection refused'')\<rparr>)
     = ([], None)"
  by (simp add: dynamodb_GetProduct_def dynamodb_Initialize_def accepting_def listTables_def
      tableExists_def createTable_def enterTestData_def products_def dynamodb_AddProduct_def
      startup_aborts_def TableName_def does_not_exist_def itoa_def digits.simps)

section \<open>The rendering of a Product\<close>

text \<open>
  C8, as amended. The rendering of a product is "<(Id: ", its id, ") {", its name,
  "} @ ", its price, ">": the name stands between braces, which are characters of the
  rendering. So (1, Apple, 0.98), with the price rendered as 0.98, is
  "<(Id: 1) {Apple} @ 0.98>".
\<close>

theorem rendering_with_braces:
  "Product_String fmtFloat p
     = ''<(Id: '' @ itoa (Id_p p) @ '') '' @ ''{'' @ Name p @ ''}'' @ '' @ '' @ fmtFloat (Price p) @ ''>''
   \<and> Product_String (\<lambda>_. ''0.98'') \<lparr>Id_p = 1, Name = ''Apple'', Price = Finite 0.98\<rparr>
     = ''<(Id: 1) {Apple} @ 0.98>''"
  by (simp add: Product_String_def itoa_def digits.simps)

text \<open>The rendering is not the one without braces: the same product.\<close>

theorem rendering_without_braces_refuted:
  "Product_String (\<lambda>_. ''0.98'') \<lparr>Id_p = 1, Name = ''Apple'', Price = Finite 0.98\<rparr>
   \<noteq> ''<(Id: '' @ itoa 1 @ '') '' @ ''Apple'' @ '' @ '' @ ''0.98'' @ ''>''"
  by (simp add: Product_String_def itoa_def digits.simps)

section \<open>The seed set\<close>

text \<open>
  C9. The products the ephemeral backend starts with are, as (id, name, price) triples
  in order, the products \<open>enterTestData\<close> lists; and when the persistent backend's
  bootstrap finds no table, creates it and every insert succeeds, the products it writes
  are exactly those, in that order.
\<close>

theorem seed_sets_agree:
  assumes "NewSession sdk = None" and "ListTables sdk = Inr names"
    and "TableName \<notin> set names" and "CreateTable sdk = None"
    and "\<forall>p \<in> set products. dynamodb_AddProduct sdk p = None"
  shows "map (\<lambda>p. (Id_p p, Name p, Price p)) (fst dummydb_Initialize)
       = map (\<lambda>p. (Id_p p, Name p, Price p)) products
    \<and> dynamodb_Initialize sdk = (fst dummydb_Initialize, None)"
proof -
  have same: "fst dummydb_Initialize = products"
    by (simp add: dummydb_Initialize_def products_def)
  have loop: "enterTestData_loop sdk ps = (ps, None)"
    if "\<forall>p \<in> set ps. dynamodb_AddProduct sdk p = None" for ps
    using that by (induction ps) simp_all
  from assms(5) have "enterTestData sdk = (products, None)"
    by (simp add: enterTestData_def loop)
  then have "createTable sdk = (products, None)"
    using assms(4) by (simp add: createTable_def)
  moreover have "tableExists sdk TableName = (False, None)"
    using assms(2,3) by (simp add: tableExists_def)
  ultimately have "dynamodb_Initialize sdk = (products, None)"
    using assms(1) by (simp add: dynamodb_Initialize_def)
  with same show ?thesis
    by simp
qed

theorem seed_sets_agree_witness:
  "NewSession accepting = None \<and> ListTables accepting = Inr [] \<and> TableName \<notin> set []
   \<and> CreateTable accepting = None
   \<and> dynamodb_Initialize accepting
     = ([\<lparr>Id_p = 1, Name = ''Apple'', Price = Finite 0.98\<rparr>,
         \<lparr>Id_p = 2, Name = ''Orange'', Price = Finite 0.98\<rparr>,
         \<lparr>Id_p = 3, Name = ''Bananas'', Price = Finite 2.25\<rparr>,
         \<lparr>Id_p = 4, Name = ''Frozen Pizza'', Price = Finite 4.99\<rparr>], None)
   \<and> fst dummydb_Initialize
     = [\<lparr>Id_p = 1, Name = ''Apple'', Price = Finite 0.98\<rparr>,
        \<lparr>Id_p = 2, Name = ''Orange'', Price = Finite 0.98\<rparr>,
        \<lparr>Id_p = 3, Name = ''Bananas'', Price = Finite 2.25\<rparr>,
        \<lparr>Id_p = 4, Name = ''Frozen Pizza'', Price = Finite 4.99\<rparr>]"
proof -
  have a: "NewSession accepting = None" and b: "ListTables accepting = Inr []"
    and c: "TableName \<notin> set []" and d: "CreateTable accepting = None"
    by (simp_all add: accepting_def)
  have e: "\<forall>p \<in> set products. dynamodb_AddProduct accepting p = None"
    by (simp add: dynamodb_AddProduct_def accepting_def)
  from seed_sets_agree [OF a b c d e] a b d show ?thesis
    by (simp add: dummydb_Initialize_def)
qed

section \<open>Entries that share an id\<close>

text \<open>
  C10. On the ephemeral backend, when several entries of the catalog share an id (which
  \<open>AddProduct\<close> allows), one call of Get, Update or Delete with that id concerns the
  first of them in stored order, \<open>q\<close> below, and no other: Get yields \<open>q\<close>, Update
  writes over \<open>q\<close>, Delete cuts \<open>q\<close> out, and the entries before and after \<open>q\<close>,
  the later ones with the same id among them, stay as they are.
\<close>

theorem duplicates_first_match:
  assumes "\<forall>x \<in> set pre. Id_p x \<noteq> Id_p p" and "Id_p q = Id_p p"
  shows "dummydb_GetProduct (pre @ q # post) p = Inr q
    \<and> dummydb_UpdateProduct (pre @ q # post) p = (pre @ p # post, None)
    \<and> dummydb_DeleteProduct (pre @ q # post) p = (pre @ post, None)"
proof -
  have "scan_Id (Id_p p) (pre @ q # post) = Some (length pre)"
    using assms by (rule scan_Id_first)
  then have "dummydb_UpdateProduct (pre @ q # post) p = (pre @ p # post, None)"
    and "dummydb_DeleteProduct (pre @ q # post) p = (pre @ post, None)"
    by (simp_all add: dummydb_UpdateProduct_def dummydb_DeleteProduct_def)
  moreover have "dummydb_GetProduct (pre @ q # post) p = Inr q"
    using assms by (intro GetProduct_first) simp_all
  ultimately show ?thesis
    by simp
qed

text \<open>
  The seed catalog after a second product with id 2 was added: the orange is the first
  entry with id 2, the lime the second.
\<close>

theorem duplicates_first_match_witness:
  "fst (dummydb_AddProduct (fst dummydb_Initialize) \<lparr>Id_p = 2, Name = ''Lime'', Price = Finite 0.5\<rparr>)
     = [\<lparr>Id_p = 1, Name = ''Apple'', Price = Finite 0.98\<rparr>]
       @ \<lparr>Id_p = 2, Name = ''Orange'', Price = Finite 0.98\<rparr>
       # [\<lparr>Id_p = 3, Name = ''Bananas'', Price = Finite 2.25\<rparr>,
          \<lparr>Id_p = 4, Name = ''Frozen Pizza'', Price = Finite 4.99\<rparr>,
          \<lparr>Id_p = 2, Name = ''Lime'', Price = Finite 0.5\<rparr>]
   \<and> dummydb_GetProduct
        (fst (dummydb_AddProduct (fst dummydb_Initialize) \<lparr>Id_p = 2, Name = ''Lime'', Price = Finite 0.5\<rparr>))
        \<lparr>Id_p = 2, Name = ''Kiwi'', Price = Finite 1\<rparr>
      = Inr \<lparr>Id_p = 2, Name = ''Orange'', Price = Finite 0.98\<rparr>
   \<and> dummydb_UpdateProduct
        (fst (dummydb_AddProduct (fst dummydb_Initialize) \<lparr>Id_p = 2, Name = ''Lime'', Price = Finite 0.5\<rparr>))
        \<lparr>Id_p = 2, Name = ''Kiwi'', Price = Finite 1\<rparr>
      = ([\<lparr>Id_p = 1, Name = ''Apple'', Price = Finite 0.98\<rparr>,
          \<lparr>Id_p = 2, Name = ''Kiwi'', Price = Finite 1\<rparr>,
          \<lparr>Id_p = 3, Name = ''Bananas'', Price = Finite 2.25\<rparr>,
          \<lparr>Id_p = 4, Name = ''Frozen Pizza'', Price = Finite 4.99\<rparr>,
          \<lparr>Id_p = 2, Name = ''Lime'', Price = Finite 0.5\<rparr>], None)
   \<and> dummydb_DeleteProduct
        (fst (dummydb_AddProduct (fst dummydb_Initialize) \<lparr>Id_p = 2, Name = ''Lime'', Price = Finite 0.5\<rparr>))
        \<lparr>Id_p = 2, Name = ''Kiwi'', Price = Finite 1\<rparr>
      = ([\<lparr>Id_p = 1, Name = ''Apple'', Price = Finite 0.98\<rparr>,
          \<lparr>Id_p = 3, Name = ''Bananas'', Price = Finite 2.25\<rparr>,
          \<lparr>Id_p = 4, Name = ''Frozen Pizza'', Price = Finite 4.99\<rparr>,
          \<lparr>Id_p = 2, Name = ''Lime'', Price = Finite 0.5\<rparr>], None)"
proof -
  have shape: "fst (dummydb_AddProduct (fst dummydb_Initialize) \<lparr>Id_p = 2, Name = ''Lime'', Price = Finite 0.5\<rparr>)
     = [\<lparr>Id_p = 1, Name = ''Apple'', Price = Finite 0.98\<rparr>]
       @ \<lparr>Id_p = 2, Name = ''Orange'', Price = Finite 0.98\<rparr>
       # [\<lparr>Id_p = 3, Name = ''Bananas'', Price = Finite 2.25\<rparr>,
          \<lparr>Id_p = 4, Name = ''Frozen Pizza'', Price = Finite 4.99\<rparr>,
          \<lparr>Id_p = 2, Name = ''Lime'', Price = Finite 0.5\<rparr>]"
    by (simp add: dummydb_AddProduct_def dummydb_Initialize_def)
  have pre: "\<forall>x \<in> set [\<lparr>Id_p = 1, Name = ''Apple'', Price = Finite 0.98\<rparr>].
      Id_p x \<noteq> Id_p \<lparr>Id_p = 2, Name = ''Kiwi'', Price = Finite 1\<rparr>"
    by simp
  have hit: "Id_p \<lparr>Id_p = 2, Name = ''Orange'', Price = Finite 0.98\<rparr> = Id_p \<lparr>Id_p = 2, Name = ''Kiwi'', Price = Finite 1\<rparr>"
    by simp
  from duplicates_first_match [OF pre hit,
      of "[\<lparr>Id_p = 3, Name = ''Bananas'', Price = Finite 2.25\<rparr>,
           \<lparr>Id_p = 4, Name = ''Frozen Pizza'', Price = Finite 4.99\<rparr>,
           \<lparr>Id_p = 2, Name = ''Lime'', Price = Finite 0.5\<rparr>]"]
  show ?thesis
    unfolding shape by simp
qed

end
